theory Spec2Isabelle
  imports Main "HOL-Library.Word"
begin

section \<open>JavaScript strings\<close>

text \<open>
  A JavaScript string is a sequence of 16-bit code units.  The regular expression of the
  rule has no \<^verbatim>\<open>u\<close> flag, so \<^verbatim>\<open>startsWith\<close> and \<^verbatim>\<open>match\<close> both work on code
  units.  ASCII text is written through \<open>ascii\<close>; the Chinese text of the message is given
  by its code units.
\<close>

type_synonym code_unit = "16 word"
type_synonym js_string = "code_unit list"

definition ascii :: "string \<Rightarrow> js_string" where
  "ascii cs = map of_char cs"

text \<open>\<^verbatim>\<open>String.prototype.startsWith(searchString)\<close>, from position 0.\<close>

definition startsWith :: "js_string \<Rightarrow> js_string \<Rightarrow> bool" where
  "startsWith s searchString = (take (length searchString) s = searchString)"

text \<open>
  The successive matches of the global regular expression \<^verbatim>\<open>/\.\.\//g\<close>: three literal
  code units, a dot, a dot and a slash.  After a match the search resumes behind it;
  otherwise it moves on by one code unit.
\<close>

fun exec_global :: "js_string \<Rightarrow> js_string list" where
  "exec_global (a # b # c # rest) =
     (if a = 0x2E \<and> b = 0x2E \<and> c = 0x2F
      then [a, b, c] # exec_global rest
      else exec_global (b # c # rest))"
| "exec_global _ = []"

text \<open>
  \<^verbatim>\<open>sourceValue.match(/\.\.\//g)\<close>: the array of all matches, or \<^verbatim>\<open>null\<close> (\<open>None\<close>)
  when there is none.
\<close>

definition match_g :: "js_string \<Rightarrow> js_string list option" where
  "match_g s = (case exec_global s of [] \<Rightarrow> None | m # ms \<Rightarrow> Some (m # ms))"

text \<open>Line 22: \<^verbatim>\<open>(sourceValue.match(/\.\.\//g) || []).length\<close>.\<close>

definition depth :: "js_string \<Rightarrow> nat" where
  "depth sourceValue = length (case match_g sourceValue of None \<Rightarrow> [] | Some ms \<Rightarrow> ms)"

text \<open>
  \<^verbatim>\<open>${maxDepth}\<close> in a template literal is \<^verbatim>\<open>Number::toString\<close>; for a non-negative
  integer below \<open>10^21\<close> that is its decimal numeral.  The plugin only ever passes 2.
\<close>

fun Number_toString :: "nat \<Rightarrow> js_string" where
  "Number_toString n =
     (if n < 10 then [of_nat (48 + n)]
      else Number_toString (n div 10) @ [of_nat (48 + n mod 10)])"

declare Number_toString.simps [simp del]

text \<open>The \<^verbatim>\<open>typeof\<close> operator on the values the rule meets.\<close>

datatype js_value = JSUndefined | JSNull | JSBoolean bool | JSNumber int | JSString js_string

fun typeof :: "js_value \<Rightarrow> string" where
  "typeof JSUndefined = ''undefined''"
| "typeof JSNull = ''object''"
| "typeof (JSBoolean _) = ''boolean''"
| "typeof (JSNumber _) = ''number''"
| "typeof (JSString _) = ''string''"

section \<open>Syntax tree nodes\<close>

text \<open>
  The nodes of \<^verbatim>\<open>@babel/types\<close> that the rule reads, with the fields it reads.
  \<open>OtherExpression\<close> stands for every other kind of expression, by its type tag.
\<close>

record StringLiteral =
  val :: js_string

datatype Expression =
    Import
  | Identifier js_string
  | MemberExpression (object: Expression) (property: Expression)
  | StringLiteralExpr (literal: StringLiteral)
  | OtherExpression js_string

record ImportDeclaration =
  source :: StringLiteral

record CallExpression =
  callee :: Expression
  arguments :: "Expression list"

record ExportNamedDeclaration =
  source :: "StringLiteral option"

record ExportAllDeclaration =
  source :: StringLiteral

datatype 'n NodePath = NodePath (node: 'n)

text \<open>
  The union of the four path types that \<^verbatim>\<open>checkRelativePath\<close> and \<^verbatim>\<open>report\<close> are
  called with.
\<close>

datatype path =
    ImportDeclarationPath "ImportDeclaration NodePath"
  | CallExpressionPath "CallExpression NodePath"
  | ExportNamedDeclarationPath "ExportNamedDeclaration NodePath"
  | ExportAllDeclarationPath "ExportAllDeclaration NodePath"

text \<open>
  The predicates of \<^verbatim>\<open>api.types\<close> the rule calls.  \<open>isIdentifier\<close> takes the name
  required by its options argument \<^verbatim>\<open>{ name: ... }\<close>.
\<close>

record types =
  isImport :: "Expression \<Rightarrow> bool"
  isStringLiteral :: "Expression \<Rightarrow> bool"
  isIdentifier :: "Expression \<Rightarrow> js_string \<Rightarrow> bool"
  isMemberExpression :: "Expression \<Rightarrow> bool"

record BabelCore =
  types :: types

definition babel_types :: types where
  "babel_types =
     \<lparr> isImport = (\<lambda>n. case n of Import \<Rightarrow> True | _ \<Rightarrow> False),
       isStringLiteral = (\<lambda>n. case n of StringLiteralExpr _ \<Rightarrow> True | _ \<Rightarrow> False),
       isIdentifier = (\<lambda>n name. case n of Identifier x \<Rightarrow> x = name | _ \<Rightarrow> False),
       isMemberExpression = (\<lambda>n. case n of MemberExpression _ _ \<Rightarrow> True | _ \<Rightarrow> False) \<rparr>"

definition babel :: BabelCore where
  "babel = \<lparr> types = babel_types \<rparr>"

section \<open>The rule\<close>

text \<open>
  The report callback has no result; its effect is a change of the host's state \<open>'st\<close>.
\<close>

type_synonym 'st report_fn = "path \<Rightarrow> js_string \<Rightarrow> 'st \<Rightarrow> 'st"

text \<open>The template literal of line 27, around \<^verbatim>\<open>${sourceValue}\<close> and \<^verbatim>\<open>${maxDepth}\<close>.\<close>

definition template_head :: js_string where
  "template_head = [0x5BFC, 0x5165, 0x2F, 0x5BFC, 0x51FA, 0x8DEF, 0x5F84, 0x20, 0x22]"

definition template_middle :: js_string where
  "template_middle =
     [0x22, 0x20, 0x4E0D, 0x80FD, 0x8D85, 0x8FC7, 0x6700, 0x5927, 0x5C42, 0x7EA7, 0xFF08]"

definition template_tail :: js_string where
  "template_tail = [0xFF1A, 0x5C42, 0xFF09]"

definition checkRelativePath ::
  "js_string \<Rightarrow> path \<Rightarrow> nat \<Rightarrow> 'st report_fn \<Rightarrow> 'st \<Rightarrow> 'st" where
  "checkRelativePath sourceValue path maxDepth report st =
     (if startsWith sourceValue (ascii ''.'') then
        (if depth sourceValue > maxDepth then
           report path
             (template_head @ sourceValue @ template_middle
                @ Number_toString maxDepth @ template_tail) st
         else st)
      else st)"

text \<open>The four visitors; \<open>t\<close>, \<open>maxDepth\<close> and \<open>report\<close> are the variables they close over.\<close>

definition ImportDeclaration_visitor ::
  "nat \<Rightarrow> 'st report_fn \<Rightarrow> ImportDeclaration NodePath \<Rightarrow> 'st \<Rightarrow> 'st" where
  "ImportDeclaration_visitor maxDepth report p st =
     (let sourceValue = val (ImportDeclaration.source (node p)) in
      if typeof (JSString sourceValue) = ''string''
      then checkRelativePath sourceValue (ImportDeclarationPath p) maxDepth report st
      else st)"

definition CallExpression_visitor ::
  "types \<Rightarrow> nat \<Rightarrow> 'st report_fn \<Rightarrow> CallExpression NodePath \<Rightarrow> 'st \<Rightarrow> 'st" where
  "CallExpression_visitor t maxDepth report p st =
     (if isImport t (callee (node p)) then
        (case arguments (node p) of
           [] \<Rightarrow> st
         | firstArg # _ \<Rightarrow>
             if isStringLiteral t firstArg then
               (let sourceValue = val (literal firstArg) in
                checkRelativePath sourceValue (CallExpressionPath p) maxDepth report st)
             else st)
      else if isIdentifier t (callee (node p)) (ascii ''require'') \<or>
              (isMemberExpression t (callee (node p)) \<and>
               isIdentifier t (object (callee (node p))) (ascii ''require''))
      then
        (case arguments (node p) of
           [] \<Rightarrow> st
         | firstArg # _ \<Rightarrow>
             if isStringLiteral t firstArg then
               (let sourceValue = val (literal firstArg) in
                checkRelativePath sourceValue (CallExpressionPath p) maxDepth report st)
             else st)
      else st)"

definition ExportNamedDeclaration_visitor ::
  "nat \<Rightarrow> 'st report_fn \<Rightarrow> ExportNamedDeclaration NodePath \<Rightarrow> 'st \<Rightarrow> 'st" where
  "ExportNamedDeclaration_visitor maxDepth report p st =
     (case ExportNamedDeclaration.source (node p) of
        None \<Rightarrow> st
      | Some src \<Rightarrow>
          (let sourceValue = val src in
           if typeof (JSString sourceValue) = ''string''
           then checkRelativePath sourceValue (ExportNamedDeclarationPath p) maxDepth report st
           else st))"

definition ExportAllDeclaration_visitor ::
  "nat \<Rightarrow> 'st report_fn \<Rightarrow> ExportAllDeclaration NodePath \<Rightarrow> 'st \<Rightarrow> 'st" where
  "ExportAllDeclaration_visitor maxDepth report p st =
     (let sourceValue = val (ExportAllDeclaration.source (node p)) in
      if typeof (JSString sourceValue) = ''string''
      then checkRelativePath sourceValue (ExportAllDeclarationPath p) maxDepth report st
      else st)"

text \<open>
  \<^verbatim>\<open>PluginOptions\<close> declares the one field \<^verbatim>\<open>report\<close>.  A JavaScript object may carry
  more properties than its interface names, which the extension of the record stands for.
\<close>

record 'st PluginOptions =
  report :: "'st report_fn"

record 'st visitor =
  ImportDeclaration :: "ImportDeclaration NodePath \<Rightarrow> 'st \<Rightarrow> 'st"
  CallExpression :: "CallExpression NodePath \<Rightarrow> 'st \<Rightarrow> 'st"
  ExportNamedDeclaration :: "ExportNamedDeclaration NodePath \<Rightarrow> 'st \<Rightarrow> 'st"
  ExportAllDeclaration :: "ExportAllDeclaration NodePath \<Rightarrow> 'st \<Rightarrow> 'st"

record 'st plugin_object =
  name :: js_string
  visitor :: "'st visitor"

text \<open>The default export: the plugin function.\<close>

definition plugin :: "BabelCore \<Rightarrow> ('st, 'more) PluginOptions_scheme \<Rightarrow> 'st plugin_object" where
  "plugin api options =
     (let t = types api;
          maxDepth = 2;
          rep = report options
      in \<lparr> name = ascii ''no-deep-relative-imports'',
           visitor =
             \<lparr> ImportDeclaration = ImportDeclaration_visitor maxDepth rep,
               CallExpression = CallExpression_visitor t maxDepth rep,
               ExportNamedDeclaration = ExportNamedDeclaration_visitor maxDepth rep,
               ExportAllDeclaration = ExportAllDeclaration_visitor maxDepth rep \<rparr> \<rparr>)"

text \<open>
  A report callback that records its calls, in order, and an options object that carries
  a \<^verbatim>\<open>maxDepth\<close> property besides \<^verbatim>\<open>report\<close>.
\<close>

definition record_report :: "(path \<times> js_string) list report_fn" where
  "record_report p message log = log @ [(p, message)]"

record 'st PluginOptionsWithDepth = "'st PluginOptions" +
  maxDepth :: nat

section \<open>Counting occurrences of a substring\<close>

text \<open>
  The number of positions of \<open>s\<close> at which the substring \<open>pat\<close> occurs.  This is the
  specification's count; the rule's own count is \<open>depth\<close>.
\<close>

definition occurrences :: "js_string \<Rightarrow> js_string \<Rightarrow> nat" where
  "occurrences pat s =
     length (filter (\<lambda>i. take (length pat) (drop i s) = pat) [0..<length s])"

section \<open>The scan of the regular expression counts the occurrences\<close>

lemma ascii_dot [simp]: "ascii ''.'' = [0x2E]"
  by (simp add: ascii_def)

lemma ascii_parent [simp]: "ascii ''../'' = [0x2E, 0x2E, 0x2F]"
  by (simp add: ascii_def)

lemma occurrences_Nil [simp]: "occurrences pat [] = 0"
  by (simp add: occurrences_def)

lemma occurrences_Cons:
  "occurrences pat (x # xs) =
     (if take (length pat) (x # xs) = pat then 1 else 0) + occurrences pat xs"
proof -
  have "[0..<Suc (length xs)] = 0 # map Suc [0..<length xs]"
    by (simp only: upt_conv_Cons [OF zero_less_Suc] map_Suc_upt)
  then show ?thesis
    by (simp add: occurrences_def filter_map o_def)
qed

lemma occurrences_parent_Cons:
  "occurrences [0x2E, 0x2E, 0x2F] (x # xs) =
     (if x = 0x2E \<and> take 2 xs = [0x2E, 0x2F] then 1 else 0)
       + occurrences [0x2E, 0x2E, 0x2F] xs"
  by (simp add: occurrences_Cons numeral_3_eq_3 numeral_2_eq_2)

lemma length_exec_global: "length (exec_global s) = occurrences [0x2E, 0x2E, 0x2F] s"
proof (induction s rule: exec_global.induct)
  case (1 a b c rest)
  show ?case
  proof (cases "a = 0x2E \<and> b = 0x2E \<and> c = 0x2F")
    case True
    with 1(1) have "length (exec_global (a # b # c # rest))
        = Suc (occurrences [0x2E, 0x2E, 0x2F] rest)"
      by simp
    moreover from True have "occurrences [0x2E, 0x2E, 0x2F] (a # b # c # rest)
        = Suc (occurrences [0x2E, 0x2E, 0x2F] rest)"
      by (simp add: occurrences_parent_Cons numeral_2_eq_2)
    ultimately show ?thesis by simp
  next
    case False
    then have "exec_global (a # b # c # rest) = exec_global (b # c # rest)"
      by (simp only: exec_global.simps(1) if_False)
    with 1(2) [OF False] have "length (exec_global (a # b # c # rest))
        = occurrences [0x2E, 0x2E, 0x2F] (b # c # rest)"
      by (simp only:)
    moreover from False have "occurrences [0x2E, 0x2E, 0x2F] (a # b # c # rest)
        = occurrences [0x2E, 0x2E, 0x2F] (b # c # rest)"
      by (subst occurrences_parent_Cons) (auto simp: numeral_2_eq_2)
    ultimately show ?thesis by simp
  qed
qed (simp_all add: occurrences_parent_Cons numeral_2_eq_2)

lemma depth_exec_global: "depth s = length (exec_global s)"
  by (simp add: depth_def match_g_def split: list.splits)

lemma depth_occurrences: "depth s = occurrences (ascii ''../'') s"
  by (simp add: depth_exec_global length_exec_global)

lemma parent_at_iff:
  "take 3 (drop i s) = [0x2E, 0x2E, 0x2F :: code_unit] \<longleftrightarrow>
     i + 2 < length s \<and> s ! i = 0x2E \<and> s ! (i + 1) = 0x2E \<and> s ! (i + 2) = 0x2F"
proof (induction s arbitrary: i)
  case Nil
  show ?case by simp
next
  case (Cons x xs)
  show ?case
  proof (cases i)
    case 0
    show ?thesis
    proof (cases xs)
      case Nil
      with 0 show ?thesis by simp
    next
      case (Cons y ys)
      with 0 show ?thesis by (cases ys) (auto simp: numeral_3_eq_3 numeral_2_eq_2)
    qed
  next
    case (Suc k)
    with Cons.IH [of k] show ?thesis by simp
  qed
qed

lemma parent_no_overlap:
  assumes "take 3 (drop i s) = ascii ''../''" and "take 3 (drop j s) = ascii ''../''"
    and "i < j"
  shows "i + 3 \<le> j"
proof (rule ccontr)
  assume "\<not> i + 3 \<le> j"
  with \<open>i < j\<close> consider "j = i + 1" | "j = i + 2" by linarith
  then show False
  proof cases
    case 1
    with assms(1,2) show False by (simp add: parent_at_iff)
  next
    case 2
    with assms(1,2) show False by (simp add: parent_at_iff)
  qed
qed

section \<open>The depth classifier\<close>

lemma checkRelativePath_relative:
  "startsWith s (ascii ''.'') \<Longrightarrow>
   checkRelativePath s p limit rep st =
     (if limit < occurrences (ascii ''../'') s
      then rep p (template_head @ s @ template_middle @ Number_toString limit @ template_tail) st
      else st)"
  by (simp add: checkRelativePath_def depth_occurrences)

lemma checkRelativePath_not_relative:
  "\<not> startsWith s (ascii ''.'') \<Longrightarrow> checkRelativePath s p limit rep st = st"
  by (simp add: checkRelativePath_def)

lemma checkRelativePath_record:
  "checkRelativePath s p limit record_report log =
     (if startsWith s (ascii ''.'') \<and> limit < depth s
      then log @ [(p, template_head @ s @ template_middle @ Number_toString limit @ template_tail)]
      else log)"
  by (simp add: checkRelativePath_def record_report_def)

lemma Number_toString_2: "Number_toString 2 = [0x32]"
  by (simp add: Number_toString.simps)

section \<open>The visitors\<close>

lemma plugin_visitors:
  "ImportDeclaration (visitor (plugin babel options))
     = ImportDeclaration_visitor 2 (report options)"
  "CallExpression (visitor (plugin babel options))
     = CallExpression_visitor babel_types 2 (report options)"
  "ExportNamedDeclaration (visitor (plugin babel options))
     = ExportNamedDeclaration_visitor 2 (report options)"
  "ExportAllDeclaration (visitor (plugin babel options))
     = ExportAllDeclaration_visitor 2 (report options)"
  by (simp_all add: plugin_def babel_def Let_def)

lemma ImportDeclaration_visitor_check:
  "ImportDeclaration_visitor limit rep p st =
     checkRelativePath (val (ImportDeclaration.source (node p))) (ImportDeclarationPath p)
       limit rep st"
  by (simp add: ImportDeclaration_visitor_def Let_def)

lemma ExportAllDeclaration_visitor_check:
  "ExportAllDeclaration_visitor limit rep p st =
     checkRelativePath (val (ExportAllDeclaration.source (node p))) (ExportAllDeclarationPath p)
       limit rep st"
  by (simp add: ExportAllDeclaration_visitor_def Let_def)

lemma ExportNamedDeclaration_visitor_check:
  "ExportNamedDeclaration_visitor limit rep p st =
     (case ExportNamedDeclaration.source (node p) of
        None \<Rightarrow> st
      | Some src \<Rightarrow> checkRelativePath (val src) (ExportNamedDeclarationPath p) limit rep st)"
  by (simp add: ExportNamedDeclaration_visitor_def Let_def split: option.splits)

lemma babel_types_simps [simp]:
  "isImport babel_types e = (e = Import)"
  "isStringLiteral babel_types e = (\<exists>lit. e = StringLiteralExpr lit)"
  "isIdentifier babel_types e x = (e = Identifier x)"
  "isMemberExpression babel_types e = (\<exists>obj prop. e = MemberExpression obj prop)"
  by (cases e; auto simp: babel_types_def)+

lemma CallExpression_visitor_import:
  "callee (node p) = Import \<Longrightarrow>
   CallExpression_visitor babel_types limit rep p st =
     (case arguments (node p) of
        StringLiteralExpr lit # _ \<Rightarrow>
          checkRelativePath (val lit) (CallExpressionPath p) limit rep st
      | _ \<Rightarrow> st)"
  by (auto simp: CallExpression_visitor_def Let_def split: list.splits Expression.splits)

lemma CallExpression_visitor_other:
  "callee (node p) \<noteq> Import \<Longrightarrow>
   CallExpression_visitor babel_types limit rep p st =
     (if callee (node p) = Identifier (ascii ''require'') \<or>
         (\<exists>prop. callee (node p) = MemberExpression (Identifier (ascii ''require'')) prop)
      then (case arguments (node p) of
              StringLiteralExpr lit # _ \<Rightarrow>
                checkRelativePath (val lit) (CallExpressionPath p) limit rep st
            | _ \<Rightarrow> st)
      else st)"
  by (auto simp: CallExpression_visitor_def Let_def split: list.splits Expression.splits)

section \<open>The claims\<close>

text \<open>
  C1: for a specifier that begins with a dot, \<open>checkRelativePath\<close> calls the report
  callback if and only if the number of occurrences of \<^verbatim>\<open>../\<close> in it is strictly greater
  than the limit.  With exactly \<open>limit\<close> occurrences nothing is reported, with
  \<open>limit + 1\<close> a violation is.
\<close>

theorem checkRelativePath_reports_iff_deeper:
  assumes "startsWith s (ascii ''.'')"
  shows "checkRelativePath s p limit rep st =
           (if limit < occurrences (ascii ''../'') s
            then rep p
              (template_head @ s @ template_middle @ Number_toString limit @ template_tail) st
            else st)
         \<and> ((checkRelativePath s p limit record_report log \<noteq> log)
              = (limit < occurrences (ascii ''../'') s))
         \<and> (occurrences (ascii ''../'') s = limit
              \<longrightarrow> checkRelativePath s p limit record_report log = log)
         \<and> (occurrences (ascii ''../'') s = limit + 1
              \<longrightarrow> checkRelativePath s p limit record_report log \<noteq> log)"
  using assms by (simp add: checkRelativePath_relative record_report_def)

theorem checkRelativePath_reports_iff_deeper_witness:
  "startsWith (ascii ''../../utils'') (ascii ''.'')
   \<and> occurrences (ascii ''../'') (ascii ''../../utils'') = 2
   \<and> checkRelativePath (ascii ''../../utils'')
        (ImportDeclarationPath (NodePath \<lparr> ImportDeclaration.source = \<lparr> val = ascii ''../../utils'' \<rparr> \<rparr>))
        2 record_report [] = []
   \<and> startsWith (ascii ''../../../utils'') (ascii ''.'')
   \<and> occurrences (ascii ''../'') (ascii ''../../../utils'') = 2 + 1
   \<and> checkRelativePath (ascii ''../../../utils'')
        (ImportDeclarationPath (NodePath \<lparr> ImportDeclaration.source = \<lparr> val = ascii ''../../../utils'' \<rparr> \<rparr>))
        2 record_report [] \<noteq> []"
proof -
  have a: "startsWith (ascii ''../../utils'') (ascii ''.'')"
    and b: "startsWith (ascii ''../../../utils'') (ascii ''.'')"
    by (simp_all add: startsWith_def ascii_def)
  have c: "occurrences (ascii ''../'') (ascii ''../../utils'') = 2"
    and d: "occurrences (ascii ''../'') (ascii ''../../../utils'') = 2 + 1"
    by (simp_all add: ascii_def length_exec_global [symmetric])
  let ?p = "ImportDeclarationPath
              (NodePath \<lparr> ImportDeclaration.source = \<lparr> val = ascii ''../../utils'' \<rparr> \<rparr>)"
  let ?q = "ImportDeclarationPath
              (NodePath \<lparr> ImportDeclaration.source = \<lparr> val = ascii ''../../../utils'' \<rparr> \<rparr>)"
  show ?thesis
    using a b c d
      checkRelativePath_reports_iff_deeper [OF a, of ?p 2 record_report "[]" "[]"]
      checkRelativePath_reports_iff_deeper [OF b, of ?q 2 record_report "[]" "[]"]
    by (simp add: record_report_def)
qed

text \<open>
  C2, as claimed: the reported message is the English sentence
  \<^verbatim>\<open>Import/export path "<specifier>" must not exceed the maximum depth (<limit> levels)\<close>.
  The template literal of the rule is Chinese, so the claim fails already at the
  specifier \<^verbatim>\<open>../../../utils\<close> under limit 2.
\<close>

theorem english_message_counterexample:
  "map snd (checkRelativePath (ascii ''../../../utils'')
             (ImportDeclarationPath
               (NodePath \<lparr> ImportDeclaration.source = \<lparr> val = ascii ''../../../utils'' \<rparr> \<rparr>))
             2 record_report [])
   \<noteq> [ascii ''Import/export path \"../../../utils\" must not exceed the maximum depth (2 levels)'']"
  by (simp add: checkRelativePath_record startsWith_def depth_exec_global template_head_def
      ascii_def)

text \<open>
  C2, amended: when a violation is reported, the message passed to the report callback is
  exactly the rule's template, nine code units (U+5BFC U+5165 \<^verbatim>\<open>/\<close> U+5BFC U+51FA U+8DEF
  U+5F84, a space and a double quote), the original specifier, eleven code units (a double
  quote, a space, U+4E0D U+80FD U+8D85 U+8FC7 U+6700 U+5927 U+5C42 U+7EA7 U+FF08), the
  limit in decimal, and U+FF1A U+5C42 U+FF09.  For \<^verbatim>\<open>../../../utils\<close> under limit 2 the
  limit is printed as the digit \<^verbatim>\<open>2\<close>.
\<close>

theorem violation_message_text:
  "(checkRelativePath s p limit record_report log \<noteq> log \<longrightarrow>
      checkRelativePath s p limit record_report log =
        log @ [(p, [0x5BFC, 0x5165, 0x2F, 0x5BFC, 0x51FA, 0x8DEF, 0x5F84, 0x20, 0x22] @ s
                   @ [0x22, 0x20, 0x4E0D, 0x80FD, 0x8D85, 0x8FC7, 0x6700, 0x5927, 0x5C42,
                      0x7EA7, 0xFF08]
                   @ Number_toString limit @ [0xFF1A, 0x5C42, 0xFF09])])
   \<and> checkRelativePath (ascii ''../../../utils'') p 2 record_report [] =
       [(p, [0x5BFC, 0x5165, 0x2F, 0x5BFC, 0x51FA, 0x8DEF, 0x5F84, 0x20, 0x22]
            @ ascii ''../../../utils''
            @ [0x22, 0x20, 0x4E0D, 0x80FD, 0x8D85, 0x8FC7, 0x6700, 0x5927, 0x5C42, 0x7EA7,
               0xFF08, 0x32, 0xFF1A, 0x5C42, 0xFF09])]"
proof (intro conjI impI)
  assume "checkRelativePath s p limit record_report log \<noteq> log"
  then have "startsWith s (ascii ''.'') \<and> limit < depth s"
    by (simp add: checkRelativePath_record split: if_splits)
  then show "checkRelativePath s p limit record_report log =
        log @ [(p, [0x5BFC, 0x5165, 0x2F, 0x5BFC, 0x51FA, 0x8DEF, 0x5F84, 0x20, 0x22] @ s
                   @ [0x22, 0x20, 0x4E0D, 0x80FD, 0x8D85, 0x8FC7, 0x6700, 0x5927, 0x5C42,
                      0x7EA7, 0xFF08]
                   @ Number_toString limit @ [0xFF1A, 0x5C42, 0xFF09])]"
    by (simp add: checkRelativePath_record template_head_def template_middle_def
        template_tail_def)
next
  show "checkRelativePath (ascii ''../../../utils'') p 2 record_report [] =
       [(p, [0x5BFC, 0x5165, 0x2F, 0x5BFC, 0x51FA, 0x8DEF, 0x5F84, 0x20, 0x22]
            @ ascii ''../../../utils''
            @ [0x22, 0x20, 0x4E0D, 0x80FD, 0x8D85, 0x8FC7, 0x6700, 0x5927, 0x5C42, 0x7EA7,
               0xFF08, 0x32, 0xFF1A, 0x5C42, 0xFF09])]"
    by (simp add: checkRelativePath_record startsWith_def depth_exec_global template_head_def
        template_middle_def template_tail_def Number_toString_2 ascii_def)
qed

theorem violation_message_text_witness:
  "checkRelativePath (ascii ''../../../../pkg'')
     (CallExpressionPath (NodePath \<lparr> callee = Identifier (ascii ''require''),
        arguments = [StringLiteralExpr \<lparr> val = ascii ''../../../../pkg'' \<rparr>] \<rparr>))
     3 record_report [] \<noteq> []
   \<and> checkRelativePath (ascii ''../../../../pkg'')
     (CallExpressionPath (NodePath \<lparr> callee = Identifier (ascii ''require''),
        arguments = [StringLiteralExpr \<lparr> val = ascii ''../../../../pkg'' \<rparr>] \<rparr>))
     3 record_report [] =
     [(CallExpressionPath (NodePath \<lparr> callee = Identifier (ascii ''require''),
        arguments = [StringLiteralExpr \<lparr> val = ascii ''../../../../pkg'' \<rparr>] \<rparr>),
       [0x5BFC, 0x5165, 0x2F, 0x5BFC, 0x51FA, 0x8DEF, 0x5F84, 0x20, 0x22]
         @ ascii ''../../../../pkg''
         @ [0x22, 0x20, 0x4E0D, 0x80FD, 0x8D85, 0x8FC7, 0x6700, 0x5927, 0x5C42, 0x7EA7, 0xFF08]
         @ ascii ''3'' @ [0xFF1A, 0x5C42, 0xFF09])]"
proof -
  let ?p = "CallExpressionPath (NodePath \<lparr> callee = Identifier (ascii ''require''),
        arguments = [StringLiteralExpr \<lparr> val = ascii ''../../../../pkg'' \<rparr>] \<rparr>)"
  have a: "checkRelativePath (ascii ''../../../../pkg'') ?p 3 record_report [] \<noteq> []"
    by (simp add: checkRelativePath_record startsWith_def depth_exec_global ascii_def)
  have n: "Number_toString 3 = ascii ''3''"
    by (simp add: Number_toString.simps ascii_def)
  show ?thesis
    using a n violation_message_text [of "ascii ''../../../../pkg''" ?p 3 "[]"]
    by simp
qed

text \<open>
  C3, as claimed: the depth limit of the visitors is the value configured in the options.
  The options carry no depth; an options object that has a \<^verbatim>\<open>maxDepth\<close> of 5 still gets
  \<^verbatim>\<open>../../../utils\<close> reported, which limit 5 would let pass.
\<close>

theorem maxDepth_option_counterexample:
  "ImportDeclaration (visitor (plugin babel \<lparr> report = record_report, maxDepth = 5 \<rparr>))
     (NodePath \<lparr> ImportDeclaration.source = \<lparr> val = ascii ''../../../utils'' \<rparr> \<rparr>) []
   \<noteq> ImportDeclaration_visitor (maxDepth \<lparr> report = record_report, maxDepth = 5 \<rparr>)
       record_report
       (NodePath \<lparr> ImportDeclaration.source = \<lparr> val = ascii ''../../../utils'' \<rparr> \<rparr>) []"
  by (simp add: plugin_visitors ImportDeclaration_visitor_check checkRelativePath_record
      startsWith_def depth_exec_global ascii_def)

text \<open>
  C3, amended: the maximum depth is the constant 2 of the plugin body.  The options supply
  the report callback only, and for every options value, whatever else it carries, each of
  the four visitors uses limit 2.
\<close>

theorem plugin_limit_is_two:
  "ImportDeclaration (visitor (plugin babel options))
     = ImportDeclaration_visitor 2 (report options)
   \<and> CallExpression (visitor (plugin babel options))
     = CallExpression_visitor babel_types 2 (report options)
   \<and> ExportNamedDeclaration (visitor (plugin babel options))
     = ExportNamedDeclaration_visitor 2 (report options)
   \<and> ExportAllDeclaration (visitor (plugin babel options))
     = ExportAllDeclaration_visitor 2 (report options)
   \<and> (startsWith s (ascii ''.'') \<longrightarrow>
        (ImportDeclaration (visitor (plugin babel \<lparr> report = record_report, \<dots> = ext \<rparr>))
           (NodePath \<lparr> ImportDeclaration.source = \<lparr> val = s \<rparr> \<rparr>) [] \<noteq> [])
        = (2 < occurrences (ascii ''../'') s))"
  by (simp add: plugin_visitors ImportDeclaration_visitor_check checkRelativePath_record
      depth_occurrences)

theorem plugin_limit_is_two_witness:
  "startsWith (ascii ''../../../utils'') (ascii ''.'')
   \<and> 2 < occurrences (ascii ''../'') (ascii ''../../../utils'')
   \<and> ImportDeclaration (visitor (plugin babel \<lparr> report = record_report, maxDepth = 7 \<rparr>))
        (NodePath \<lparr> ImportDeclaration.source = \<lparr> val = ascii ''../../../utils'' \<rparr> \<rparr>) [] \<noteq> []"
proof -
  have a: "startsWith (ascii ''../../../utils'') (ascii ''.'')"
    by (simp add: startsWith_def ascii_def)
  have b: "2 < occurrences (ascii ''../'') (ascii ''../../../utils'')"
    by (simp add: ascii_def length_exec_global [symmetric])
  have "(ImportDeclaration (visitor (plugin babel \<lparr> report = record_report, maxDepth = 7 \<rparr>))
           (NodePath \<lparr> ImportDeclaration.source = \<lparr> val = ascii ''../../../utils'' \<rparr> \<rparr>) []
         \<noteq> [])
        = (2 < occurrences (ascii ''../'') (ascii ''../../../utils''))"
    using a
      plugin_limit_is_two [where s = "ascii ''../../../utils''"
        and ext = "\<lparr> maxDepth = 7 \<rparr>"
        and options = "\<lparr> report = record_report, maxDepth = 7 \<rparr>"]
    by blast
  with a b show ?thesis by blast
qed

text \<open>
  C4, as claimed: a call of a member-accessed require such as \<^verbatim>\<open>window.require(...)\<close>
  with a string literal whose \<^verbatim>\<open>../\<close> count exceeds the limit is reported once.  The rule
  looks at the base object of the member access, which is \<^verbatim>\<open>window\<close> there, so nothing is
  reported; nor is a literal that does not begin with a dot, however many \<^verbatim>\<open>../\<close> it
  holds.
\<close>

theorem window_require_counterexample:
  "CallExpression (visitor (plugin babel \<lparr> report = record_report \<rparr>))
     (NodePath \<lparr> callee = MemberExpression (Identifier (ascii ''window''))
                             (Identifier (ascii ''require'')),
                 arguments = [StringLiteralExpr \<lparr> val = ascii ''../../../../pkg'' \<rparr>] \<rparr>) []
   = []
   \<and> CallExpression (visitor (plugin babel \<lparr> report = record_report \<rparr>))
     (NodePath \<lparr> callee = Identifier (ascii ''require''),
                 arguments = [StringLiteralExpr \<lparr> val = ascii ''pkg/../../../../lib'' \<rparr>] \<rparr>) []
   = []"
  by (simp add: plugin_visitors CallExpression_visitor_other checkRelativePath_record
      startsWith_def) (simp add: ascii_def)

text \<open>
  C4, amended: a call whose callee is a member access on the base object \<^verbatim>\<open>require\<close>
  (as in \<^verbatim>\<open>require.resolve(...)\<close>), with a string literal first argument that begins
  with a dot and holds more \<^verbatim>\<open>../\<close> than the limit, makes the report callback run exactly
  once, with the call node.  The check accepts a callee that is the bare identifier
  \<^verbatim>\<open>require\<close> or a member access whose base object is the identifier \<^verbatim>\<open>require\<close>; a
  member access on any other base object is skipped.
\<close>

theorem require_call_reported_once:
  "(callee (node p) = MemberExpression (Identifier (ascii ''require'')) member
      \<and> arguments (node p) = StringLiteralExpr lit # rest
      \<and> startsWith (val lit) (ascii ''.'')
      \<and> limit < occurrences (ascii ''../'') (val lit)
    \<longrightarrow> CallExpression_visitor babel_types limit record_report p log =
          log @ [(CallExpressionPath p,
                  template_head @ val lit @ template_middle @ Number_toString limit
                    @ template_tail)])
   \<and> (callee (node p) \<noteq> Import \<and> arguments (node p) = StringLiteralExpr lit # rest
    \<longrightarrow> CallExpression_visitor babel_types limit rep p st =
          (if callee (node p) = Identifier (ascii ''require'') \<or>
              (\<exists>x. callee (node p) = MemberExpression (Identifier (ascii ''require'')) x)
           then checkRelativePath (val lit) (CallExpressionPath p) limit rep st
           else st))
   \<and> (callee (node p) = MemberExpression base member'
      \<and> base \<noteq> Identifier (ascii ''require'')
    \<longrightarrow> CallExpression_visitor babel_types limit rep p st = st)"
  by (simp add: CallExpression_visitor_other checkRelativePath_record depth_occurrences)

theorem require_call_reported_once_witness:
  "startsWith (ascii ''../../../../pkg'') (ascii ''.'')
   \<and> 2 < occurrences (ascii ''../'') (ascii ''../../../../pkg'')
   \<and> MemberExpression (Identifier (ascii ''require'')) (Identifier (ascii ''resolve''))
       \<noteq> Import
   \<and> CallExpression_visitor babel_types 2 record_report
       (NodePath \<lparr> callee = MemberExpression (Identifier (ascii ''require''))
                               (Identifier (ascii ''resolve'')),
                   arguments = [StringLiteralExpr \<lparr> val = ascii ''../../../../pkg'' \<rparr>] \<rparr>) []
     = [(CallExpressionPath
          (NodePath \<lparr> callee = MemberExpression (Identifier (ascii ''require''))
                                  (Identifier (ascii ''resolve'')),
                      arguments = [StringLiteralExpr \<lparr> val = ascii ''../../../../pkg'' \<rparr>] \<rparr>),
         template_head @ ascii ''../../../../pkg'' @ template_middle @ ascii ''2''
           @ template_tail)]
   \<and> Identifier (ascii ''module'') \<noteq> Identifier (ascii ''require'')
   \<and> CallExpression_visitor babel_types 2 record_report
       (NodePath \<lparr> callee = MemberExpression (Identifier (ascii ''module''))
                               (Identifier (ascii ''require'')),
                   arguments = [StringLiteralExpr \<lparr> val = ascii ''../../../../pkg'' \<rparr>] \<rparr>) []
     = []"
proof -
  let ?p = "NodePath \<lparr> callee = MemberExpression (Identifier (ascii ''require''))
                               (Identifier (ascii ''resolve'')),
                   arguments = [StringLiteralExpr \<lparr> val = ascii ''../../../../pkg'' \<rparr>] \<rparr>"
  let ?q = "NodePath \<lparr> callee = MemberExpression (Identifier (ascii ''module''))
                               (Identifier (ascii ''require'')),
                   arguments = [StringLiteralExpr \<lparr> val = ascii ''../../../../pkg'' \<rparr>] \<rparr>"
  have a: "startsWith (ascii ''../../../../pkg'') (ascii ''.'')"
    by (simp add: startsWith_def ascii_def)
  have b: "2 < occurrences (ascii ''../'') (ascii ''../../../../pkg'')"
    by (simp add: ascii_def length_exec_global [symmetric])
  have c: "Identifier (ascii ''module'') \<noteq> Identifier (ascii ''require'')"
    by (simp add: ascii_def)
  have n: "Number_toString 2 = ascii ''2''"
    by (simp add: Number_toString.simps ascii_def)
  have "CallExpression_visitor babel_types 2 record_report ?p []
          = [(CallExpressionPath ?p,
              template_head @ ascii ''../../../../pkg'' @ template_middle @ ascii ''2''
                @ template_tail)]"
    using a b n
      require_call_reported_once [where p = ?p and member = "Identifier (ascii ''resolve'')"
        and lit = "\<lparr> val = ascii ''../../../../pkg'' \<rparr>" and rest = "[]" and limit = 2
        and log = "[]" and rep = record_report and st = "[]"
        and base = "Identifier (ascii ''module'')"
        and member' = "Identifier (ascii ''require'')"]
    by simp
  moreover have "CallExpression_visitor babel_types 2 record_report ?q [] = []"
    using c
      require_call_reported_once [where p = ?q and base = "Identifier (ascii ''module'')"
        and member' = "Identifier (ascii ''require'')" and limit = 2
        and rep = record_report and st = "[]" and log = "[]" and rest = "[]"
        and member = "Identifier (ascii ''resolve'')"
        and lit = "\<lparr> val = ascii ''../../../../pkg'' \<rparr>"]
    by simp
  ultimately show ?thesis
    using a b c by simp
qed

text \<open>
  C5: the depth of a specifier is the number of occurrences of the three code units
  \<^verbatim>\<open>../\<close> anywhere in the string, not only in a leading run.  Two occurrences never
  overlap, so counting positions and counting non-overlapping occurrences from left to
  right agree.  Nothing is normalised: \<^verbatim>\<open>./a/../../b\<close> has depth 2.
\<close>

theorem depth_counts_every_occurrence:
  "depth s = occurrences (ascii ''../'') s
   \<and> (take 3 (drop i s) = ascii ''../'' \<and> take 3 (drop j s) = ascii ''../'' \<and> i < j
        \<longrightarrow> i + 3 \<le> j)
   \<and> depth (ascii ''./a/../../b'') = 2"
proof (intro conjI impI)
  show "depth s = occurrences (ascii ''../'') s"
    by (rule depth_occurrences)
next
  assume "take 3 (drop i s) = ascii ''../'' \<and> take 3 (drop j s) = ascii ''../'' \<and> i < j"
  then show "i + 3 \<le> j"
    using parent_no_overlap [of i s j] by blast
next
  show "depth (ascii ''./a/../../b'') = 2"
    by (simp add: depth_exec_global ascii_def)
qed

theorem depth_counts_every_occurrence_witness:
  "take 3 (drop 0 (ascii ''./a/../../b'')) \<noteq> ascii ''../''
   \<and> take 3 (drop 4 (ascii ''./a/../../b'')) = ascii ''../''
   \<and> take 3 (drop 7 (ascii ''./a/../../b'')) = ascii ''../''
   \<and> (4::nat) < 7 \<and> (4::nat) + 3 \<le> 7
   \<and> occurrences (ascii ''../'') (ascii ''./a/../../b'') = 2"
  using depth_counts_every_occurrence [of "ascii ''./a/../../b''" 4 7]
  by (simp add: ascii_def)

text \<open>
  C6: a specifier that does not begin with a dot, the empty string among them, is never
  reported, whatever the limit and whatever the report callback.
\<close>

theorem non_relative_specifier_never_reported:
  "(\<not> startsWith s (ascii ''.'') \<longrightarrow> checkRelativePath s p limit rep st = st)
   \<and> checkRelativePath [] p limit rep st = st"
  by (simp add: checkRelativePath_not_relative) (simp add: checkRelativePath_def startsWith_def)

theorem non_relative_specifier_never_reported_witness:
  "\<not> startsWith (ascii ''lodash/../../../fp'') (ascii ''.'')
   \<and> checkRelativePath (ascii ''lodash/../../../fp'')
        (ImportDeclarationPath (NodePath \<lparr> ImportDeclaration.source = \<lparr> val = ascii ''lodash/../../../fp'' \<rparr> \<rparr>))
        0 record_report [] = []"
  using non_relative_specifier_never_reported [of "ascii ''lodash/../../../fp''" _ 0 record_report "[]"]
  by (simp add: startsWith_def ascii_def)

text \<open>
  C7: for a dynamic import whose first argument is absent or is not a string literal, the
  visitor leaves the state as it is, for every report callback and every limit: nothing
  is classified and nothing is reported.
\<close>

theorem dynamic_import_non_literal_ignored:
  "callee (node p) = Import
     \<and> (case arguments (node p) of
            [] \<Rightarrow> True
          | firstArg # _ \<Rightarrow> \<not> isStringLiteral babel_types firstArg)
   \<longrightarrow> CallExpression_visitor babel_types limit rep p st = st
        \<and> CallExpression (visitor (plugin babel options)) p st = st"
  by (auto simp: plugin_visitors CallExpression_visitor_import
      split: list.splits Expression.splits)

theorem dynamic_import_non_literal_ignored_witness:
  "callee (node (NodePath \<lparr> callee = Import,
                              arguments = [Identifier (ascii ''modulePath'')] \<rparr>)) = Import
   \<and> \<not> isStringLiteral babel_types (Identifier (ascii ''modulePath''))
   \<and> CallExpression (visitor (plugin babel \<lparr> report = record_report \<rparr>))
         (NodePath \<lparr> callee = Import, arguments = [Identifier (ascii ''modulePath'')] \<rparr>) []
       = []
   \<and> arguments (node (NodePath \<lparr> callee = Import, arguments = [] \<rparr>)) = []
   \<and> CallExpression (visitor (plugin babel \<lparr> report = record_report \<rparr>))
         (NodePath \<lparr> callee = Import, arguments = [] \<rparr>) []
       = []"
  using
    dynamic_import_non_literal_ignored
      [where p = "NodePath \<lparr> callee = Import, arguments = [Identifier (ascii ''modulePath'')] \<rparr>"
         and options = "\<lparr> report = record_report \<rparr>" and st = "[]"
         and rep = record_report and limit = 2]
    dynamic_import_non_literal_ignored
      [where p = "NodePath \<lparr> callee = Import, arguments = [] \<rparr>"
         and options = "\<lparr> report = record_report \<rparr>" and st = "[]"
         and rep = record_report and limit = 2]
  by simp

text \<open>
  C8, as claimed: a wildcard re-export of a source whose \<^verbatim>\<open>../\<close> count exceeds the limit
  produces a violation.  The source \<^verbatim>\<open>pkg/../../../deep\<close> holds three \<^verbatim>\<open>../\<close> and is
  not reported under limit 2, since it does not begin with a dot.
\<close>

theorem wildcard_non_relative_counterexample:
  "depth (ascii ''pkg/../../../deep'') = 3
   \<and> ExportAllDeclaration (visitor (plugin babel \<lparr> report = record_report \<rparr>))
       (NodePath \<lparr> ExportAllDeclaration.source = \<lparr> val = ascii ''pkg/../../../deep'' \<rparr> \<rparr>) []
     = []"
  by (simp add: plugin_visitors ExportAllDeclaration_visitor_check checkRelativePath_record
      startsWith_def depth_exec_global) (simp add: ascii_def)

text \<open>
  C8, amended: a named export declaration with no source is not checked and reports
  nothing; an export-all declaration always has its source classified; a wildcard
  re-export of a source that begins with a dot and holds more \<^verbatim>\<open>../\<close> than the limit
  produces a violation.
\<close>

theorem re_export_source_checks:
  "(ExportNamedDeclaration.source (node p) = None
      \<longrightarrow> ExportNamedDeclaration_visitor limit rep p st = st)
   \<and> ExportAllDeclaration_visitor limit rep q st =
       checkRelativePath (val (ExportAllDeclaration.source (node q)))
         (ExportAllDeclarationPath q) limit rep st
   \<and> (startsWith (val (ExportAllDeclaration.source (node q))) (ascii ''.'')
        \<and> limit < occurrences (ascii ''../'') (val (ExportAllDeclaration.source (node q)))
      \<longrightarrow> ExportAllDeclaration_visitor limit record_report q log =
            log @ [(ExportAllDeclarationPath q,
                    template_head @ val (ExportAllDeclaration.source (node q))
                      @ template_middle @ Number_toString limit @ template_tail)])"
  by (simp add: ExportNamedDeclaration_visitor_check ExportAllDeclaration_visitor_check
      checkRelativePath_record depth_occurrences)

theorem re_export_source_checks_witness:
  "ExportNamedDeclaration.source
     (node (NodePath \<lparr> ExportNamedDeclaration.source = None \<rparr>)) = None
   \<and> ExportNamedDeclaration_visitor 2 record_report
       (NodePath \<lparr> ExportNamedDeclaration.source = None \<rparr>) [] = []
   \<and> startsWith (ascii ''../../../deep'') (ascii ''.'')
   \<and> 2 < occurrences (ascii ''../'') (ascii ''../../../deep'')
   \<and> ExportAllDeclaration_visitor 2 record_report
       (NodePath \<lparr> ExportAllDeclaration.source = \<lparr> val = ascii ''../../../deep'' \<rparr> \<rparr>) []
     = [(ExportAllDeclarationPath
          (NodePath \<lparr> ExportAllDeclaration.source = \<lparr> val = ascii ''../../../deep'' \<rparr> \<rparr>),
         template_head @ ascii ''../../../deep'' @ template_middle @ ascii ''2''
           @ template_tail)]"
proof -
  have a: "startsWith (ascii ''../../../deep'') (ascii ''.'')"
    by (simp add: startsWith_def ascii_def)
  have b: "2 < occurrences (ascii ''../'') (ascii ''../../../deep'')"
    by (simp add: ascii_def length_exec_global [symmetric])
  have n: "Number_toString 2 = ascii ''2''"
    by (simp add: Number_toString.simps ascii_def)
  show ?thesis
    using a b n
      re_export_source_checks
        [where p = "NodePath \<lparr> ExportNamedDeclaration.source = None \<rparr>"
           and q = "NodePath \<lparr> ExportAllDeclaration.source
                                  = \<lparr> val = ascii ''../../../deep'' \<rparr> \<rparr>"
           and limit = 2 and rep = record_report and st = "[]" and log = "[]"]
    by (simp add: checkRelativePath_record depth_occurrences)
qed

text \<open>
  C9: one specifier carried by a static import, a dynamic import, a require call, a named
  re-export and a wildcard re-export gives, under one limit, the same outcome in all of
  them, and the same message when it is a violation.
\<close>

theorem four_shapes_agree:
  "map snd (ImportDeclaration_visitor limit record_report
              (NodePath \<lparr> ImportDeclaration.source = \<lparr> val = s \<rparr> \<rparr>) [])
     = map snd (checkRelativePath s p limit record_report [])
   \<and> map snd (CallExpression_visitor babel_types limit record_report
              (NodePath \<lparr> callee = Import,
                          arguments = StringLiteralExpr \<lparr> val = s \<rparr> # rest \<rparr>) [])
     = map snd (checkRelativePath s p limit record_report [])
   \<and> map snd (CallExpression_visitor babel_types limit record_report
              (NodePath \<lparr> callee = Identifier (ascii ''require''),
                          arguments = StringLiteralExpr \<lparr> val = s \<rparr> # rest' \<rparr>) [])
     = map snd (checkRelativePath s p limit record_report [])
   \<and> map snd (ExportNamedDeclaration_visitor limit record_report
              (NodePath \<lparr> ExportNamedDeclaration.source = Some \<lparr> val = s \<rparr> \<rparr>) [])
     = map snd (checkRelativePath s p limit record_report [])
   \<and> map snd (ExportAllDeclaration_visitor limit record_report
              (NodePath \<lparr> ExportAllDeclaration.source = \<lparr> val = s \<rparr> \<rparr>) [])
     = map snd (checkRelativePath s p limit record_report [])
   \<and> map snd (checkRelativePath s p limit record_report [])
     = (if startsWith s (ascii ''.'') \<and> limit < occurrences (ascii ''../'') s
        then [template_head @ s @ template_middle @ Number_toString limit @ template_tail]
        else [])"
  by (simp add: ImportDeclaration_visitor_check CallExpression_visitor_import
      CallExpression_visitor_other ExportNamedDeclaration_visitor_check
      ExportAllDeclaration_visitor_check checkRelativePath_record depth_occurrences)

text \<open>
  C10: a last \<^verbatim>\<open>..\<close> with no slash behind it is not counted.  \<^verbatim>\<open>..\<close> has depth 0,
  \<^verbatim>\<open>../..\<close> depth 1 and \<^verbatim>\<open>../../..\<close> depth 2, so under limit 2 the last one is not
  reported although it names three parent levels.
\<close>

theorem trailing_parent_segment_not_counted:
  "depth (ascii ''..'') = 0
   \<and> depth (ascii ''../..'') = 1
   \<and> depth (ascii ''../../..'') = 2
   \<and> checkRelativePath (ascii ''../../..'') p 2 rep st = st"
  by (simp add: depth_exec_global checkRelativePath_def startsWith_def ascii_def)

end
